theory Spec2Isabelle
  imports Main
begin

section \<open>Values and exceptions\<close>

text \<open>
  The script \<^verbatim>\<open>validate.py\<close> handles two loaded documents: the OpenAPI document
  (read as YAML) and the JSON document. Both are Python values built from
  \<^verbatim>\<open>None\<close>, booleans, numbers, strings, lists and dictionaries. A dictionary is an
  association list in insertion order; a finite float is a mantissa and a binary
  exponent. The script itself only ever looks into dictionaries by string key.
\<close>

datatype pyval =
    PNone
  | PBool bool
  | PInt int
  | PFloat int int
  | PStr string
  | PList "pyval list"
  | PDict "(string \<times> pyval) list"

text \<open>
  What a library reports when it raises: the exception class and its message. The
  script never inspects either.
\<close>

datatype report = Report string string

text \<open>
  The exceptions that can end the script. \<open>SystemExit\<close> is raised by the argument
  parser with its exit status, \<open>OSError\<close> by opening a path that cannot be read,
  \<open>KeyError\<close> and \<open>TypeError\<close> by the subscripts of line 43, and \<open>Raised\<close> carries
  whatever a library call raised, unchanged.
\<close>

datatype pyexn =
    SystemExit nat
  | OSError string
  | KeyError string
  | TypeError
  | Raised report

text \<open>
  The interpreter's exit status for an exception that reaches the top level: the
  status of a \<open>SystemExit\<close>, and 1 for every other exception.
\<close>

fun exit_code :: "pyexn \<Rightarrow> nat" where
  "exit_code (SystemExit n) = n"
| "exit_code _ = 1"

section \<open>The command line\<close>

text \<open>
  Lines 27 to 33 declare three positional arguments, in this order. The parser is
  created without \<^verbatim>\<open>add_help=False\<close>, so it also has the options \<^verbatim>\<open>-h\<close> and
  \<^verbatim>\<open>--help\<close>. Parsing either gives the three values or stops the process: with
  the help text and status 0, with a usage error and status 2, or with an exception
  of the parser itself.
\<close>

datatype namespace = Namespace (spec: string) (json: string) (schema: string)

definition parser_positionals :: "string list" where
  "parser_positionals = [''spec'', ''json'', ''schema'']"

datatype usage_error =
    MissingArguments "string list"
  | UnrecognizedArguments
  | IgnoredExplicitArgument

datatype stop =
    Help
  | Usage usage_error
  | Crash report

datatype parse_outcome =
    Parsed namespace
  | Stopped stop

section \<open>The libraries and the file system\<close>

text \<open>
  Everything the script imports is a parameter of the model: the parsers of file
  contents, the OpenAPI 3.0 validator of the specification, the constructor of the
  reference resolver and the schema validator. Each one either returns or raises a
  report. The type \<open>'r\<close> is the type of resolver objects.

  Three corners of \<^verbatim>\<open>argparse\<close> differ between Python versions or need Unicode
  tables, and are parameters too: whether a string of \<^verbatim>\<open>-\<close>, digits, points and
  characters outside ASCII looks like a negative number (\<open>lib_negative_number\<close>,
  for the digits of other scripts); how the process stops when a help flag carries an
  attached argument, as in \<^verbatim>\<open>-hx\<close> or \<^verbatim>\<open>--help=x\<close> (\<open>lib_help_with_argument\<close>,
  which cannot return arguments); and which three values the parser returns for
  three argument strings of which one is a second \<^verbatim>\<open>--\<close>
  (\<open>lib_repeated_separator\<close>). \<open>lib_format_help\<close> is the help text.
\<close>

record 'r libs =
  lib_negative_number :: "string \<Rightarrow> bool"
  lib_help_with_argument :: "string list \<Rightarrow> stop"
  lib_repeated_separator :: "string list \<Rightarrow> namespace"
  lib_format_help :: string
  lib_yaml_load :: "string \<Rightarrow> report + pyval"
  lib_path2url :: "string \<Rightarrow> string"
  lib_json_loads :: "string \<Rightarrow> report + pyval"
  lib_validate_spec :: "pyval \<Rightarrow> report option"
  lib_from_schema :: "pyval \<Rightarrow> report + 'r"
  lib_validate :: "pyval \<Rightarrow> pyval \<Rightarrow> 'r \<Rightarrow> report option"

text \<open>
  A path leads to a regular file, to a special file that can be opened and read but
  is not a regular file (a named pipe, a device such as \<^verbatim>\<open>/dev/stdin\<close>), or to
  nothing that can be opened (\<open>None\<close>: no such path, a directory, no permission).
\<close>

datatype node = Regular string | Special string

fun contents :: "node \<Rightarrow> string" where
  "contents (Regular s) = s"
| "contents (Special s) = s"

type_synonym filesystem = "string \<Rightarrow> node option"

section \<open>The process: calls made, text written, exceptions\<close>

datatype 'r event =
    ParseArgs "string list"
  | ReadFromFilename string
  | OpenFile string
  | JsonLoad string
  | ValidateSpec pyval
  | FromSchema pyval
  | GetItem pyval string
  | Validate pyval pyval 'r
  | Print string

datatype diag = UsageMessage usage_error | Traceback pyexn

record 'r world =
  trace :: "'r event list"
  stdout :: string
  stderr :: "diag list"

type_synonym ('r, 'a) prog = "'r world \<Rightarrow> (pyexn + 'a) \<times> 'r world"

definition py_return :: "'a \<Rightarrow> ('r, 'a) prog" where
  "py_return x = (\<lambda>w. (Inr x, w))"

definition py_raise :: "pyexn \<Rightarrow> ('r, 'a) prog" where
  "py_raise e = (\<lambda>w. (Inl e, w))"

definition py_bind :: "('r, 'a) prog \<Rightarrow> ('a \<Rightarrow> ('r, 'b) prog) \<Rightarrow> ('r, 'b) prog" where
  "py_bind m f = (\<lambda>w. case m w of (Inl e, w') \<Rightarrow> (Inl e, w') | (Inr x, w') \<Rightarrow> f x w')"

text \<open>A call is recorded in the trace when it is made, whether it returns or raises.\<close>

definition call :: "'r event \<Rightarrow> pyexn + 'a \<Rightarrow> ('r, 'a) prog" where
  "call ev r = (\<lambda>w. (r, w\<lparr>trace := trace w @ [ev]\<rparr>))"

definition write_stdout :: "string \<Rightarrow> ('r, unit) prog" where
  "write_stdout s = (\<lambda>w. (Inr (), w\<lparr>stdout := stdout w @ s\<rparr>))"

definition write_stderr :: "diag \<Rightarrow> ('r, unit) prog" where
  "write_stderr d = (\<lambda>w. (Inr (), w\<lparr>stderr := stderr w @ [d]\<rparr>))"

section \<open>The statements of the script\<close>

subsection \<open>Line 35: \<^verbatim>\<open>args = parser.parse_args()\<close>\<close>

text \<open>
  The parser first decides, for each string before the first \<^verbatim>\<open>--\<close>, whether it is
  an argument or an option; every string after the first \<^verbatim>\<open>--\<close> is an argument.
  A string is an argument when it is empty, does not begin with \<^verbatim>\<open>-\<close> or is
  \<^verbatim>\<open>-\<close> alone. \<^verbatim>\<open>-h\<close>, \<^verbatim>\<open>--help\<close> and the abbreviations \<^verbatim>\<open>--h\<close>, \<^verbatim>\<open>--he\<close>,
  \<^verbatim>\<open>--hel\<close> are the help flag. A string that begins with \<^verbatim>\<open>-h\<close>, or whose part
  before \<^verbatim>\<open>=\<close> begins with \<^verbatim>\<open>--\<close> and abbreviates \<^verbatim>\<open>--help\<close>, is the help flag
  with an attached argument. Of the other strings, one that looks like a negative
  number (\<^verbatim>\<open>-\<close>, digits, at most one point followed by digits, at most one newline
  at the end) or contains a space is an argument; the rest are unknown options.
\<close>

datatype token =
    Positional string
  | HelpFlag
  | HelpWithArgument
  | UnknownOption string

definition is_digit :: "char \<Rightarrow> bool" where
  "is_digit c = (c \<in> set ''0123456789'')"

definition ascii_negative_number :: "string \<Rightarrow> bool" where
  "ascii_negative_number a =
     (case a of
        [] \<Rightarrow> False
      | c # r \<Rightarrow>
          c = CHR ''-'' \<and>
          ((r \<noteq> [] \<and> list_all is_digit r) \<or>
           (case dropWhile is_digit r of
              [] \<Rightarrow> False
            | d # f \<Rightarrow> d = CHR ''.'' \<and> f \<noteq> [] \<and> list_all is_digit f)))"

definition without_final_newline :: "string \<Rightarrow> string" where
  "without_final_newline a = (if a \<noteq> [] \<and> last a = CHR 0x0A then butlast a else a)"

definition is_ascii :: "char \<Rightarrow> bool" where
  "is_ascii c = (of_char c < (128 :: nat))"

definition negative_number :: "'r libs \<Rightarrow> string \<Rightarrow> bool" where
  "negative_number L a =
     (if list_all is_ascii a then ascii_negative_number (without_final_newline a)
      else
        (case a of
           [] \<Rightarrow> False
         | c # r \<Rightarrow>
             c = CHR ''-'' \<and>
             list_all (\<lambda>x. is_digit x \<or> x = CHR ''.'' \<or> x = CHR 0x0A \<or> \<not> is_ascii x) r \<and>
             lib_negative_number L a))"

definition abbreviates_help :: "string \<Rightarrow> bool" where
  "abbreviates_help pre = (take (length pre) ''--help'' = pre)"

definition classify :: "'r libs \<Rightarrow> string \<Rightarrow> token" where
  "classify L a =
     (case a of
        [] \<Rightarrow> Positional a
      | c # r \<Rightarrow>
          if c \<noteq> CHR ''-'' then Positional a
          else if a = ''-h'' \<or> a = ''--help'' then HelpFlag
          else
            (case r of
               [] \<Rightarrow> Positional a
             | d # _ \<Rightarrow>
                 if d = CHR ''h'' then HelpWithArgument
                 else if d = CHR ''-'' \<and> abbreviates_help (takeWhile (\<lambda>x. x \<noteq> CHR ''='') a)
                 then (if CHR ''='' \<in> set a then HelpWithArgument else HelpFlag)
                 else if negative_number L a \<or> CHR '' '' \<in> set a then Positional a
                 else UnknownOption a))"

text \<open>
  The strings before the first \<^verbatim>\<open>--\<close> as tokens, and the strings after it.
\<close>

definition tokens :: "'r libs \<Rightarrow> string list \<Rightarrow> token list" where
  "tokens L argv = map (classify L) (takeWhile (\<lambda>a. a \<noteq> ''--'') argv)"

definition after_separator :: "string list \<Rightarrow> string list" where
  "after_separator argv = drop 1 (dropWhile (\<lambda>a. a \<noteq> ''--'') argv)"

fun is_help :: "token \<Rightarrow> bool" where
  "is_help HelpFlag = True"
| "is_help HelpWithArgument = True"
| "is_help _ = False"

text \<open>
  The first help flag of the command line, if there is one: options are handled in
  the order they stand, and neither arguments nor unknown options stop the parser
  before it gets there.
\<close>

definition help_request :: "'r libs \<Rightarrow> string list \<Rightarrow> token option" where
  "help_request L argv = find is_help (tokens L argv)"

fun positional_of :: "token \<Rightarrow> string list" where
  "positional_of (Positional a) = [a]"
| "positional_of _ = []"

fun unknown_of :: "token \<Rightarrow> string list" where
  "unknown_of (UnknownOption a) = [a]"
| "unknown_of _ = []"

definition positional_strings :: "'r libs \<Rightarrow> string list \<Rightarrow> string list" where
  "positional_strings L argv = concat (map positional_of (tokens L argv)) @ after_separator argv"

definition unknown_options :: "'r libs \<Rightarrow> string list \<Rightarrow> string list" where
  "unknown_options L argv = concat (map unknown_of (tokens L argv))"

text \<open>
  Without a help flag, the first three argument strings fill \<open>spec\<close>, \<open>json\<close> and
  \<open>schema\<close>. Missing required arguments are reported first; unknown options and
  arguments beyond the third are reported as unrecognized.
\<close>

definition argparse :: "'r libs \<Rightarrow> string list \<Rightarrow> parse_outcome" where
  "argparse L argv =
     (case help_request L argv of
        Some HelpFlag \<Rightarrow> Stopped Help
      | Some _ \<Rightarrow> Stopped (lib_help_with_argument L argv)
      | None \<Rightarrow>
          (let given = positional_strings L argv in
           if length given < 3
           then Stopped (Usage (MissingArguments (drop (length given) parser_positionals)))
           else if length given = 3 \<and> unknown_options L argv = []
           then Parsed
                  (if ''--'' \<in> set (after_separator argv) then lib_repeated_separator L argv
                   else Namespace (given ! 0) (given ! 1) (given ! 2))
           else Stopped (Usage UnrecognizedArguments)))"

text \<open>
  The help action prints the help text to standard output and exits with status 0;
  a usage error prints to standard error and exits with status 2; an exception of
  the parser reaches the top level like any other.
\<close>

definition parse_args :: "'r libs \<Rightarrow> string list \<Rightarrow> ('r, namespace) prog" where
  "parse_args L argv =
     py_bind (call (ParseArgs argv) (Inr ())) (\<lambda>_.
       case argparse L argv of
         Parsed ns \<Rightarrow> py_return ns
       | Stopped Help \<Rightarrow>
           py_bind (write_stdout (lib_format_help L)) (\<lambda>_. py_raise (SystemExit 0))
       | Stopped (Usage u) \<Rightarrow>
           py_bind (write_stderr (UsageMessage u)) (\<lambda>_. py_raise (SystemExit 2))
       | Stopped (Crash rep) \<Rightarrow> py_raise (Raised rep))"

subsection \<open>Line 37: \<^verbatim>\<open>spec_dict, spec_url = read_from_filename(args.spec)\<close>\<close>

text \<open>
  The reader first asks whether the path is a regular file and raises \<open>OSError\<close>
  when it is not, also for a pipe or a device that could be opened. Otherwise it
  parses the contents as YAML and returns the document together with the URL of
  the file. The script does not use the URL.
\<close>

definition load_spec :: "'r libs \<Rightarrow> filesystem \<Rightarrow> string \<Rightarrow> pyexn + (pyval \<times> string)" where
  "load_spec L fs p =
     (case fs p of
        Some (Regular txt) \<Rightarrow>
          (case lib_yaml_load L txt of
             Inl rep \<Rightarrow> Inl (Raised rep)
           | Inr d \<Rightarrow> Inr (d, lib_path2url L p))
      | _ \<Rightarrow> Inl (OSError p))"

definition read_from_filename :: "'r libs \<Rightarrow> filesystem \<Rightarrow> string \<Rightarrow> ('r, pyval \<times> string) prog" where
  "read_from_filename L fs p = call (ReadFromFilename p) (load_spec L fs p)"

subsection \<open>Line 38: \<^verbatim>\<open>json = json.load(open(args.json))\<close>\<close>

text \<open>
  Two calls: \<^verbatim>\<open>open\<close> raises \<open>OSError\<close> for a path that cannot be opened, and opens
  regular and special files alike; \<^verbatim>\<open>json.load\<close> parses the contents of the opened
  file. The loaded value is named \<open>json_doc\<close> below.
\<close>

definition open_result :: "filesystem \<Rightarrow> string \<Rightarrow> pyexn + string" where
  "open_result fs p = (case fs p of None \<Rightarrow> Inl (OSError p) | Some f \<Rightarrow> Inr (contents f))"

definition json_load_result :: "'r libs \<Rightarrow> string \<Rightarrow> pyexn + pyval" where
  "json_load_result L txt =
     (case lib_json_loads L txt of Inl rep \<Rightarrow> Inl (Raised rep) | Inr v \<Rightarrow> Inr v)"

definition open_file :: "filesystem \<Rightarrow> string \<Rightarrow> ('r, string) prog" where
  "open_file fs p = call (OpenFile p) (open_result fs p)"

definition json_load :: "'r libs \<Rightarrow> string \<Rightarrow> ('r, pyval) prog" where
  "json_load L txt = call (JsonLoad txt) (json_load_result L txt)"

text \<open>The value of the whole right-hand side of line 38.\<close>

definition load_json :: "'r libs \<Rightarrow> filesystem \<Rightarrow> string \<Rightarrow> pyexn + pyval" where
  "load_json L fs p =
     (case open_result fs p of Inl e \<Rightarrow> Inl e | Inr txt \<Rightarrow> json_load_result L txt)"

subsection \<open>Line 40: \<^verbatim>\<open>validate_spec(spec_dict, validator=openapi_v30_spec_validator)\<close>\<close>

definition spec_result :: "'r libs \<Rightarrow> pyval \<Rightarrow> pyexn + unit" where
  "spec_result L d = (case lib_validate_spec L d of Some rep \<Rightarrow> Inl (Raised rep) | None \<Rightarrow> Inr ())"

definition validate_spec :: "'r libs \<Rightarrow> pyval \<Rightarrow> ('r, unit) prog" where
  "validate_spec L d = call (ValidateSpec d) (spec_result L d)"

subsection \<open>Line 42: \<^verbatim>\<open>ref_resolver = RefResolver.from_schema(spec_dict)\<close>\<close>

definition resolver_result :: "'r libs \<Rightarrow> pyval \<Rightarrow> pyexn + 'r" where
  "resolver_result L d = (case lib_from_schema L d of Inl rep \<Rightarrow> Inl (Raised rep) | Inr r \<Rightarrow> Inr r)"

definition from_schema :: "'r libs \<Rightarrow> pyval \<Rightarrow> ('r, 'r) prog" where
  "from_schema L d = call (FromSchema d) (resolver_result L d)"

subsection \<open>Line 43: the subscripts, the call of \<^verbatim>\<open>validate\<close>\<close>

text \<open>
  \<^verbatim>\<open>d[k]\<close> with a string \<open>k\<close>: a dictionary gives the value stored under \<open>k\<close> or
  raises \<open>KeyError\<close>; every other value raises \<open>TypeError\<close>.
\<close>

fun getitem :: "pyval \<Rightarrow> string \<Rightarrow> pyexn + pyval" where
  "getitem (PDict kvs) k = (case map_of kvs k of None \<Rightarrow> Inl (KeyError k) | Some v \<Rightarrow> Inr v)"
| "getitem _ k = Inl TypeError"

definition subscript :: "pyval \<Rightarrow> string \<Rightarrow> ('r, pyval) prog" where
  "subscript d k = call (GetItem d k) (getitem d k)"

text \<open>The value of \<^verbatim>\<open>spec_dict["components"]["schemas"][name]\<close>.\<close>

definition lookup_schema :: "pyval \<Rightarrow> string \<Rightarrow> pyexn + pyval" where
  "lookup_schema d name =
     (case getitem d ''components'' of
        Inl e \<Rightarrow> Inl e
      | Inr c \<Rightarrow> (case getitem c ''schemas'' of Inl e \<Rightarrow> Inl e | Inr s \<Rightarrow> getitem s name))"

definition validate_result :: "'r libs \<Rightarrow> pyval \<Rightarrow> pyval \<Rightarrow> 'r \<Rightarrow> pyexn + unit" where
  "validate_result L doc sch r =
     (case lib_validate L doc sch r of Some rep \<Rightarrow> Inl (Raised rep) | None \<Rightarrow> Inr ())"

definition validate :: "'r libs \<Rightarrow> pyval \<Rightarrow> pyval \<Rightarrow> 'r \<Rightarrow> ('r, unit) prog" where
  "validate L doc sch r = call (Validate doc sch r) (validate_result L doc sch r)"

subsection \<open>Line 44: \<^verbatim>\<open>print("OK")\<close>\<close>

definition print :: "string \<Rightarrow> ('r, unit) prog" where
  "print s = py_bind (call (Print s) (Inr ())) (\<lambda>_. write_stdout (s @ [CHR 0x0A]))"

subsection \<open>The script\<close>

definition main :: "'r libs \<Rightarrow> filesystem \<Rightarrow> string list \<Rightarrow> ('r, unit) prog" where
  "main L fs argv =
     py_bind (parse_args L argv) (\<lambda>args.
     py_bind (read_from_filename L fs (spec args)) (\<lambda>(spec_dict, spec_url).
     py_bind (py_bind (open_file fs (json args)) (json_load L)) (\<lambda>json_doc.
     py_bind (validate_spec L spec_dict) (\<lambda>_.
     py_bind (from_schema L spec_dict) (\<lambda>ref_resolver.
     py_bind (subscript spec_dict ''components'') (\<lambda>components.
     py_bind (subscript components ''schemas'') (\<lambda>schemas.
     py_bind (subscript schemas (schema args)) (\<lambda>named_schema.
     py_bind (validate L json_doc named_schema ref_resolver) (\<lambda>_.
     print ''OK'')))))))))"

text \<open>
  One run of the process: the script starts with an empty trace and empty streams.
  An exception that is not a \<open>SystemExit\<close> is printed as a traceback on standard
  error when the interpreter exits.
\<close>

definition initial :: "'r world" where
  "initial = \<lparr>trace = [], stdout = [], stderr = []\<rparr>"

definition uncaught :: "'r libs \<Rightarrow> filesystem \<Rightarrow> string list \<Rightarrow> pyexn option" where
  "uncaught L fs argv = (case fst (main L fs argv initial) of Inl e \<Rightarrow> Some e | Inr _ \<Rightarrow> None)"

definition exit_status :: "'r libs \<Rightarrow> filesystem \<Rightarrow> string list \<Rightarrow> nat" where
  "exit_status L fs argv = (case uncaught L fs argv of None \<Rightarrow> 0 | Some e \<Rightarrow> exit_code e)"

definition printed :: "'r libs \<Rightarrow> filesystem \<Rightarrow> string list \<Rightarrow> string" where
  "printed L fs argv = stdout (snd (main L fs argv initial))"

definition calls :: "'r libs \<Rightarrow> filesystem \<Rightarrow> string list \<Rightarrow> 'r event list" where
  "calls L fs argv = trace (snd (main L fs argv initial))"

definition error_stream :: "'r libs \<Rightarrow> filesystem \<Rightarrow> string list \<Rightarrow> diag list" where
  "error_stream L fs argv =
     stderr (snd (main L fs argv initial)) @
     (case uncaught L fs argv of
        None \<Rightarrow> []
      | Some (SystemExit n) \<Rightarrow> []
      | Some e \<Rightarrow> [Traceback e])"

section \<open>The result of lines 37 to 44 without the bookkeeping\<close>

text \<open>
  Once the arguments are parsed, the rest of the script is a chain of calls in which
  the first exception ends the run. \<open>verdict\<close> is that chain on the results alone,
  without trace and streams; \<open>main_verdict\<close> below shows that the script computes
  it.
\<close>

definition verdict :: "'r libs \<Rightarrow> filesystem \<Rightarrow> namespace \<Rightarrow> pyexn + unit" where
  "verdict L fs args =
     (case load_spec L fs (spec args) of
        Inl e \<Rightarrow> Inl e
      | Inr (spec_dict, spec_url) \<Rightarrow>
          (case load_json L fs (json args) of
             Inl e \<Rightarrow> Inl e
           | Inr json_doc \<Rightarrow>
               (case spec_result L spec_dict of
                  Inl e \<Rightarrow> Inl e
                | Inr _ \<Rightarrow>
                    (case resolver_result L spec_dict of
                       Inl e \<Rightarrow> Inl e
                     | Inr ref_resolver \<Rightarrow>
                         (case lookup_schema spec_dict (schema args) of
                            Inl e \<Rightarrow> Inl e
                          | Inr named_schema \<Rightarrow>
                              validate_result L json_doc named_schema ref_resolver)))))"

section \<open>Kinds of calls\<close>

text \<open>
  The call that validates the specification, and the calls that belong to validating
  the document: building the resolver, looking the schema up and calling the schema
  validator.
\<close>

fun is_spec_validation :: "'r event \<Rightarrow> bool" where
  "is_spec_validation (ValidateSpec _) = True"
| "is_spec_validation _ = False"

fun is_document_validation :: "'r event \<Rightarrow> bool" where
  "is_document_validation (FromSchema _) = True"
| "is_document_validation (GetItem _ _) = True"
| "is_document_validation (Validate _ _ _) = True"
| "is_document_validation _ = False"

text \<open>
  A specification file is not a valid OpenAPI 3.0 document when it cannot be loaded
  or when the loaded document is rejected by the specification validator.
\<close>

definition spec_invalid :: "'r libs \<Rightarrow> filesystem \<Rightarrow> string \<Rightarrow> bool" where
  "spec_invalid L fs p =
     (case load_spec L fs p of
        Inl _ \<Rightarrow> True
      | Inr (d, _) \<Rightarrow> lib_validate_spec L d \<noteq> None)"

section \<open>A small instance of the libraries\<close>

text \<open>
  To run the script on concrete inputs the library parameters are instantiated with
  a small library: its parsers know a handful of file contents, its specification
  validator asks for the three required fields of an OpenAPI document, a resolver
  is the document it was built from, and its schema validator follows a
  \<^verbatim>\<open>$ref\<close> into \<^verbatim>\<open>components.schemas\<close> of that document and checks the \<^verbatim>\<open>type\<close>
  keyword.
\<close>

definition age_schema :: pyval where
  "age_schema = PDict [(''type'', PStr ''integer'')]"

definition alias_schema :: pyval where
  "alias_schema = PDict [(''$ref'', PStr ''#/components/schemas/Age'')]"

definition info_object :: pyval where
  "info_object = PDict [(''title'', PStr ''Pets''), (''version'', PStr ''1'')]"

definition required_fields :: "(string \<times> pyval) list" where
  "required_fields =
     [(''openapi'', PStr ''3.0.0''), (''info'', info_object), (''paths'', PDict [])]"

definition petstore :: pyval where
  "petstore = PDict
     (required_fields @
      [(''components'', PDict [(''schemas'', PDict [(''Age'', age_schema), (''Alias'', alias_schema)])])])"

definition bare_spec :: pyval where
  "bare_spec = PDict required_fields"

definition no_schemas_fields :: "(string \<times> pyval) list" where
  "no_schemas_fields = required_fields @ [(''components'', PDict [])]"

definition no_schemas_spec :: pyval where
  "no_schemas_spec = PDict no_schemas_fields"

definition versionless_spec :: pyval where
  "versionless_spec = PDict
     [(''info'', info_object), (''paths'', PDict []),
      (''components'', PDict [(''schemas'', PDict [(''Age'', age_schema)])])]"

definition example_yaml_load :: "string \<Rightarrow> report + pyval" where
  "example_yaml_load txt =
     (case map_of
        [(''<petstore>'', petstore), (''<bare>'', bare_spec),
         (''<no-schemas>'', no_schemas_spec), (''<versionless>'', versionless_spec)] txt of
        Some d \<Rightarrow> Inr d
      | None \<Rightarrow> Inl (Report ''YAMLError'' txt))"

definition example_json_loads :: "string \<Rightarrow> report + pyval" where
  "example_json_loads txt =
     (case map_of [(''7'', PInt 7), (''true'', PBool True), (''null'', PNone)] txt of
        Some v \<Rightarrow> Inr v
      | None \<Rightarrow> Inl (Report ''JSONDecodeError'' txt))"

definition example_validate_spec :: "pyval \<Rightarrow> report option" where
  "example_validate_spec d =
     (case d of
        PDict kvs \<Rightarrow>
          if list_all (\<lambda>k. map_of kvs k \<noteq> None) [''openapi'', ''info'', ''paths'']
          then None
          else Some (Report ''OpenAPIValidationError'' ''required property'')
      | _ \<Rightarrow> Some (Report ''OpenAPIValidationError'' ''not an object''))"

fun has_type :: "pyval \<Rightarrow> string \<Rightarrow> bool" where
  "has_type (PBool _) t = (t = ''boolean'')"
| "has_type (PInt _) t = (t = ''integer'' \<or> t = ''number'')"
| "has_type (PFloat _ _) t = (t = ''number'')"
| "has_type (PStr _) t = (t = ''string'')"
| "has_type (PList _) t = (t = ''array'')"
| "has_type (PDict _) t = (t = ''object'')"
| "has_type PNone t = False"

definition check_type :: "pyval \<Rightarrow> pyval \<Rightarrow> report option" where
  "check_type doc sch =
     (case getitem sch ''type'' of
        Inr (PStr t) \<Rightarrow> if has_type doc t then None else Some (Report ''ValidationError'' t)
      | _ \<Rightarrow> None)"

definition example_validate :: "pyval \<Rightarrow> pyval \<Rightarrow> pyval \<Rightarrow> report option" where
  "example_validate doc sch root =
     (case getitem sch ''$ref'' of
        Inr (PStr p) \<Rightarrow>
          if take 21 p = ''#/components/schemas/''
          then (case lookup_schema root (drop 21 p) of
                  Inr target \<Rightarrow> check_type doc target
                | Inl _ \<Rightarrow> Some (Report ''RefResolutionError'' p))
          else Some (Report ''RefResolutionError'' p)
      | _ \<Rightarrow> check_type doc sch)"

definition example_libs :: "pyval libs" where
  "example_libs =
     \<lparr>lib_negative_number = (\<lambda>a. False),
      lib_help_with_argument = (\<lambda>argv. Usage IgnoredExplicitArgument),
      lib_repeated_separator = (\<lambda>argv. Namespace [] [] []),
      lib_format_help = ''usage: openapi-validator [-h] spec json schema'',
      lib_yaml_load = example_yaml_load,
      lib_path2url = (\<lambda>p. ''file:///'' @ p),
      lib_json_loads = example_json_loads,
      lib_validate_spec = example_validate_spec,
      lib_from_schema = Inr,
      lib_validate = example_validate\<rparr>"

definition example_fs :: filesystem where
  "example_fs = map_of
     [(''petstore.yaml'', Regular ''<petstore>''), (''bare.yaml'', Regular ''<bare>''),
      (''no-schemas.yaml'', Regular ''<no-schemas>''),
      (''versionless.yaml'', Regular ''<versionless>''),
      (''seven.json'', Regular ''7''), (''true.json'', Regular ''true''),
      (''torn.json'', Regular ''{'')]"

definition no_files :: filesystem where
  "no_files = map_of []"

section \<open>How the statements combine\<close>

lemma call_bind_Inr: "py_bind (call ev (Inr x)) f w = f x (w\<lparr>trace := trace w @ [ev]\<rparr>)"
  by (simp add: py_bind_def call_def)

lemma call_bind_Inl: "py_bind (call ev (Inl e)) f w = (Inl e, w\<lparr>trace := trace w @ [ev]\<rparr>)"
  by (simp add: py_bind_def call_def)

lemma call_bind:
  "py_bind (call ev r) f w =
     (case r of
        Inl e \<Rightarrow> (Inl e, w\<lparr>trace := trace w @ [ev]\<rparr>)
      | Inr x \<Rightarrow> f x (w\<lparr>trace := trace w @ [ev]\<rparr>))"
  by (simp add: py_bind_def call_def split: sum.splits)

lemma call_last: "call ev r w = (r, w\<lparr>trace := trace w @ [ev]\<rparr>)"
  by (simp add: call_def)

lemma py_bind_assoc: "py_bind (py_bind m f) g = py_bind m (\<lambda>x. py_bind (f x) g)"
  by (auto simp: py_bind_def fun_eq_iff split: prod.splits sum.splits)

lemma return_bind: "py_bind (py_return x) f = f x"
  by (simp add: py_bind_def py_return_def)

lemma raise_bind: "py_bind (py_raise e) f w = (Inl e, w)"
  by (simp add: py_bind_def py_raise_def)

lemma raise_last: "py_raise e w = (Inl e, w)"
  by (simp add: py_raise_def)

lemma write_stdout_bind: "py_bind (write_stdout s) f w = f () (w\<lparr>stdout := stdout w @ s\<rparr>)"
  by (simp add: py_bind_def write_stdout_def)

lemma write_stdout_last: "write_stdout s w = (Inr (), w\<lparr>stdout := stdout w @ s\<rparr>)"
  by (simp add: write_stdout_def)

lemma write_stderr_bind: "py_bind (write_stderr d) f w = f () (w\<lparr>stderr := stderr w @ [d]\<rparr>)"
  by (simp add: py_bind_def write_stderr_def)

lemmas statement_defs =
  main_def parse_args_def read_from_filename_def open_file_def json_load_def validate_spec_def
  from_schema_def subscript_def validate_def print_def initial_def

lemmas sequencing =
  py_bind_assoc return_bind raise_bind raise_last write_stdout_bind write_stdout_last
  write_stderr_bind call_last

lemmas script_simps =
  statement_defs spec_result_def resolver_result_def validate_result_def
  sequencing call_bind_Inr call_bind_Inl

lemmas observed = uncaught_def exit_status_def printed_def calls_def error_stream_def

subsection \<open>Where a run ends\<close>

text \<open>
  One lemma for each place at which the script can stop: the exception that reaches
  the top level, the calls made up to there, and the two streams.
\<close>

lemma main_usage:
  assumes "argparse L argv = Stopped (Usage u)"
  shows "main L fs argv initial =
    (Inl (SystemExit 2), \<lparr>trace = [ParseArgs argv], stdout = [], stderr = [UsageMessage u]\<rparr>)"
  by (simp add: script_simps assms)

lemma main_help:
  assumes "argparse L argv = Stopped Help"
  shows "main L fs argv initial =
    (Inl (SystemExit 0), \<lparr>trace = [ParseArgs argv], stdout = lib_format_help L, stderr = []\<rparr>)"
  by (simp add: script_simps assms)

lemma main_crash:
  assumes "argparse L argv = Stopped (Crash rep)"
  shows "main L fs argv initial =
    (Inl (Raised rep), \<lparr>trace = [ParseArgs argv], stdout = [], stderr = []\<rparr>)"
  by (simp add: script_simps assms)

lemma main_spec_unreadable:
  assumes "argparse L argv = Parsed ns" and "load_spec L fs (spec ns) = Inl e"
  shows "main L fs argv initial =
    (Inl e, \<lparr>trace = [ParseArgs argv, ReadFromFilename (spec ns)], stdout = [], stderr = []\<rparr>)"
  by (simp add: script_simps assms)

lemma main_open_fails:
  assumes "argparse L argv = Parsed ns" and "load_spec L fs (spec ns) = Inr (d, u)"
    and "open_result fs (json ns) = Inl e"
  shows "main L fs argv initial =
    (Inl e,
     \<lparr>trace = [ParseArgs argv, ReadFromFilename (spec ns), OpenFile (json ns)],
      stdout = [], stderr = []\<rparr>)"
  by (simp add: script_simps assms)

lemma main_json_fails:
  assumes "argparse L argv = Parsed ns" and "load_spec L fs (spec ns) = Inr (d, u)"
    and "open_result fs (json ns) = Inr txt" and "json_load_result L txt = Inl e"
  shows "main L fs argv initial =
    (Inl e,
     \<lparr>trace = [ParseArgs argv, ReadFromFilename (spec ns), OpenFile (json ns), JsonLoad txt],
      stdout = [], stderr = []\<rparr>)"
  by (simp add: script_simps assms)

lemma main_spec_rejected:
  assumes "argparse L argv = Parsed ns" and "load_spec L fs (spec ns) = Inr (d, u)"
    and "open_result fs (json ns) = Inr txt" and "json_load_result L txt = Inr doc"
    and "lib_validate_spec L d = Some rep"
  shows "main L fs argv initial =
    (Inl (Raised rep),
     \<lparr>trace = [ParseArgs argv, ReadFromFilename (spec ns), OpenFile (json ns), JsonLoad txt,
        ValidateSpec d],
      stdout = [], stderr = []\<rparr>)"
  by (simp add: script_simps assms)

lemma main_resolver_fails:
  assumes "argparse L argv = Parsed ns" and "load_spec L fs (spec ns) = Inr (d, u)"
    and "open_result fs (json ns) = Inr txt" and "json_load_result L txt = Inr doc"
    and "lib_validate_spec L d = None" and "lib_from_schema L d = Inl rep"
  shows "main L fs argv initial =
    (Inl (Raised rep),
     \<lparr>trace = [ParseArgs argv, ReadFromFilename (spec ns), OpenFile (json ns), JsonLoad txt,
        ValidateSpec d, FromSchema d],
      stdout = [], stderr = []\<rparr>)"
  by (simp add: script_simps assms)

lemma main_components_fails:
  assumes "argparse L argv = Parsed ns" and "load_spec L fs (spec ns) = Inr (d, u)"
    and "open_result fs (json ns) = Inr txt" and "json_load_result L txt = Inr doc"
    and "lib_validate_spec L d = None" and "lib_from_schema L d = Inr r"
    and "getitem d ''components'' = Inl e"
  shows "main L fs argv initial =
    (Inl e,
     \<lparr>trace = [ParseArgs argv, ReadFromFilename (spec ns), OpenFile (json ns), JsonLoad txt,
        ValidateSpec d, FromSchema d, GetItem d ''components''],
      stdout = [], stderr = []\<rparr>)"
  by (simp add: script_simps assms)

lemma main_schemas_fails:
  assumes "argparse L argv = Parsed ns" and "load_spec L fs (spec ns) = Inr (d, u)"
    and "open_result fs (json ns) = Inr txt" and "json_load_result L txt = Inr doc"
    and "lib_validate_spec L d = None" and "lib_from_schema L d = Inr r"
    and "getitem d ''components'' = Inr c" and "getitem c ''schemas'' = Inl e"
  shows "main L fs argv initial =
    (Inl e,
     \<lparr>trace = [ParseArgs argv, ReadFromFilename (spec ns), OpenFile (json ns), JsonLoad txt,
        ValidateSpec d, FromSchema d, GetItem d ''components'', GetItem c ''schemas''],
      stdout = [], stderr = []\<rparr>)"
  by (simp add: script_simps assms)

lemma main_name_fails:
  assumes "argparse L argv = Parsed ns" and "load_spec L fs (spec ns) = Inr (d, u)"
    and "open_result fs (json ns) = Inr txt" and "json_load_result L txt = Inr doc"
    and "lib_validate_spec L d = None" and "lib_from_schema L d = Inr r"
    and "getitem d ''components'' = Inr c" and "getitem c ''schemas'' = Inr s"
    and "getitem s (schema ns) = Inl e"
  shows "main L fs argv initial =
    (Inl e,
     \<lparr>trace = [ParseArgs argv, ReadFromFilename (spec ns), OpenFile (json ns), JsonLoad txt,
        ValidateSpec d, FromSchema d, GetItem d ''components'', GetItem c ''schemas'',
        GetItem s (schema ns)],
      stdout = [], stderr = []\<rparr>)"
  by (simp add: script_simps assms)

lemma main_validate_fails:
  assumes "argparse L argv = Parsed ns" and "load_spec L fs (spec ns) = Inr (d, u)"
    and "open_result fs (json ns) = Inr txt" and "json_load_result L txt = Inr doc"
    and "lib_validate_spec L d = None" and "lib_from_schema L d = Inr r"
    and "getitem d ''components'' = Inr c" and "getitem c ''schemas'' = Inr s"
    and "getitem s (schema ns) = Inr sch" and "lib_validate L doc sch r = Some rep"
  shows "main L fs argv initial =
    (Inl (Raised rep),
     \<lparr>trace = [ParseArgs argv, ReadFromFilename (spec ns), OpenFile (json ns), JsonLoad txt,
        ValidateSpec d, FromSchema d, GetItem d ''components'', GetItem c ''schemas'',
        GetItem s (schema ns), Validate doc sch r],
      stdout = [], stderr = []\<rparr>)"
  by (simp add: script_simps assms)

lemma main_ok:
  assumes "argparse L argv = Parsed ns" and "load_spec L fs (spec ns) = Inr (d, u)"
    and "open_result fs (json ns) = Inr txt" and "json_load_result L txt = Inr doc"
    and "lib_validate_spec L d = None" and "lib_from_schema L d = Inr r"
    and "getitem d ''components'' = Inr c" and "getitem c ''schemas'' = Inr s"
    and "getitem s (schema ns) = Inr sch" and "lib_validate L doc sch r = None"
  shows "main L fs argv initial =
    (Inr (),
     \<lparr>trace = [ParseArgs argv, ReadFromFilename (spec ns), OpenFile (json ns), JsonLoad txt,
        ValidateSpec d, FromSchema d, GetItem d ''components'', GetItem c ''schemas'',
        GetItem s (schema ns), Validate doc sch r, Print ''OK''],
      stdout = ''OK'' @ [CHR 0x0A], stderr = []\<rparr>)"
  by (simp add: script_simps assms)

subsection \<open>Results of the composite expressions\<close>

lemma load_json_Inr:
  assumes "load_json L fs p = Inr doc"
  obtains contents where "open_result fs p = Inr contents"
    and "json_load_result L contents = Inr doc"
  using assms by (auto simp: load_json_def split: sum.splits)

lemma load_json_Inl:
  assumes "load_json L fs p = Inl e"
  obtains "open_result fs p = Inl e"
  | contents where "open_result fs p = Inr contents" and "json_load_result L contents = Inl e"
  using assms by (auto simp: load_json_def split: sum.splits)

lemma lookup_schema_Inr:
  assumes "lookup_schema d name = Inr sch"
  obtains c s where "getitem d ''components'' = Inr c" and "getitem c ''schemas'' = Inr s"
    and "getitem s name = Inr sch"
  using assms by (auto simp: lookup_schema_def split: sum.splits)

lemma load_spec_exit_code: "load_spec L fs p = Inl e \<Longrightarrow> exit_code e = 1"
  by (auto simp: load_spec_def split: option.splits sum.splits node.splits)

lemma load_json_exit_code: "load_json L fs p = Inl e \<Longrightarrow> exit_code e = 1"
  by (auto simp: load_json_def open_result_def json_load_result_def split: option.splits sum.splits)

lemma getitem_exit_code: "getitem d k = Inl e \<Longrightarrow> exit_code e = 1"
  by (cases d) (auto split: option.splits)

subsection \<open>The script computes the verdict\<close>

lemma main_verdict:
  assumes "argparse L argv = Parsed ns"
  shows "fst (main L fs argv initial) = verdict L fs ns \<and>
         stdout (snd (main L fs argv initial)) =
           (case verdict L fs ns of Inl _ \<Rightarrow> [] | Inr _ \<Rightarrow> ''OK'' @ [CHR 0x0A]) \<and>
         stderr (snd (main L fs argv initial)) = []"
  using assms
  by (auto simp: statement_defs sequencing call_bind verdict_def load_json_def lookup_schema_def
      split: sum.splits)

subsection \<open>Runs of the small library\<close>

lemmas parsing =
  argparse_def help_request_def tokens_def classify_def positional_strings_def
  unknown_options_def after_separator_def negative_number_def ascii_negative_number_def
  without_final_newline_def abbreviates_help_def is_digit_def is_ascii_def
  parser_positionals_def Let_def

lemma three_positionals:
  "argparse L [''petstore.yaml'', ''seven.json'', ''Age''] =
     Parsed (Namespace ''petstore.yaml'' ''seven.json'' ''Age'')"
  "argparse L [''petstore.yaml'', ''true.json'', ''Age''] =
     Parsed (Namespace ''petstore.yaml'' ''true.json'' ''Age'')"
  "argparse L [''petstore.yaml'', ''seven.json'', ''Alias''] =
     Parsed (Namespace ''petstore.yaml'' ''seven.json'' ''Alias'')"
  "argparse L [''petstore.yaml'', ''seven.json'', ''age''] =
     Parsed (Namespace ''petstore.yaml'' ''seven.json'' ''age'')"
  "argparse L [''versionless.yaml'', ''seven.json'', ''Age''] =
     Parsed (Namespace ''versionless.yaml'' ''seven.json'' ''Age'')"
  "argparse L [''versionless.yaml'', ''torn.json'', ''Age''] =
     Parsed (Namespace ''versionless.yaml'' ''torn.json'' ''Age'')"
  "argparse L [''bare.yaml'', ''seven.json'', ''Age''] =
     Parsed (Namespace ''bare.yaml'' ''seven.json'' ''Age'')"
  "argparse L [''no-schemas.yaml'', ''seven.json'', ''Age''] =
     Parsed (Namespace ''no-schemas.yaml'' ''seven.json'' ''Age'')"
  by (simp_all add: parsing)

lemma example_specs:
  "load_spec example_libs example_fs ''petstore.yaml'' = Inr (petstore, ''file:///petstore.yaml'')"
  "load_spec example_libs example_fs ''bare.yaml'' = Inr (bare_spec, ''file:///bare.yaml'')"
  "load_spec example_libs example_fs ''no-schemas.yaml'' =
     Inr (no_schemas_spec, ''file:///no-schemas.yaml'')"
  "load_spec example_libs example_fs ''versionless.yaml'' =
     Inr (versionless_spec, ''file:///versionless.yaml'')"
  by (simp_all add: load_spec_def example_libs_def example_fs_def example_yaml_load_def)

lemma example_documents:
  "load_json example_libs example_fs ''seven.json'' = Inr (PInt 7)"
  "load_json example_libs example_fs ''true.json'' = Inr (PBool True)"
  "load_json example_libs example_fs ''torn.json'' = Inl (Raised (Report ''JSONDecodeError'' ''{''))"
  by (simp_all add: load_json_def open_result_def json_load_result_def example_libs_def
      example_fs_def example_json_loads_def)

lemma example_spec_verdicts:
  "lib_validate_spec example_libs petstore = None"
  "lib_validate_spec example_libs bare_spec = None"
  "lib_validate_spec example_libs no_schemas_spec = None"
  "lib_validate_spec example_libs versionless_spec =
     Some (Report ''OpenAPIValidationError'' ''required property'')"
  by (simp_all add: example_libs_def example_validate_spec_def petstore_def bare_spec_def
      no_schemas_spec_def no_schemas_fields_def required_fields_def versionless_spec_def)

lemma example_resolver: "lib_from_schema example_libs d = Inr d"
  by (simp add: example_libs_def)

lemma petstore_schemas:
  "getitem petstore ''components'' =
     Inr (PDict [(''schemas'', PDict [(''Age'', age_schema), (''Alias'', alias_schema)])])"
  "lookup_schema petstore ''Age'' = Inr age_schema"
  "lookup_schema petstore ''Alias'' = Inr alias_schema"
  by (simp_all add: lookup_schema_def petstore_def required_fields_def)

lemma example_validations:
  "lib_validate example_libs (PInt 7) age_schema petstore = None"
  "lib_validate example_libs (PInt 7) alias_schema petstore = None"
  "lib_validate example_libs (PBool True) age_schema petstore =
     Some (Report ''ValidationError'' ''integer'')"
  by (simp_all add: example_libs_def example_validate_def check_type_def age_schema_def
      alias_schema_def petstore_schemas)

section \<open>The claims\<close>

text \<open>
  C1. For every invocation where the spec file parses as a valid OpenAPI 3.0
  document and the JSON document conforms to the schema named by the third argument,
  with internal \<^verbatim>\<open>$ref\<close> pointers resolved, the program prints exactly \<^verbatim>\<open>OK\<close> and
  exits with status 0. Conformance is what the schema validator decides when it is
  given the document, the named schema and the resolver built from the
  specification.
\<close>

theorem conforming_document_prints_OK:
  assumes "argparse L argv = Parsed ns"
    and "load_spec L fs (spec ns) = Inr (spec_dict, spec_url)"
    and "lib_validate_spec L spec_dict = None"
    and "load_json L fs (json ns) = Inr doc"
    and "lib_from_schema L spec_dict = Inr r"
    and "lookup_schema spec_dict (schema ns) = Inr sch"
    and "lib_validate L doc sch r = None"
  shows "printed L fs argv = ''OK'' @ [CHR 0x0A] \<and> exit_status L fs argv = 0 \<and>
         error_stream L fs argv = []"
proof -
  have "verdict L fs ns = Inr ()"
    using assms
    by (simp add: verdict_def spec_result_def resolver_result_def validate_result_def)
  with main_verdict [OF assms(1), of fs] show ?thesis
    by (simp add: observed)
qed

theorem conforming_document_prints_OK_witness:
  "printed example_libs example_fs [''petstore.yaml'', ''seven.json'', ''Age''] =
     ''OK'' @ [CHR 0x0A] \<and>
   exit_status example_libs example_fs [''petstore.yaml'', ''seven.json'', ''Age''] = 0 \<and>
   error_stream example_libs example_fs [''petstore.yaml'', ''seven.json'', ''Age''] = []"
  by (rule conforming_document_prints_OK
        [where ns = "Namespace ''petstore.yaml'' ''seven.json'' ''Age''" and spec_dict = petstore
           and spec_url = "''file:///petstore.yaml''" and doc = "PInt 7" and r = petstore
           and sch = age_schema])
     (simp_all add: three_positionals example_specs example_documents example_spec_verdicts
        example_resolver petstore_schemas example_validations)

text \<open>
  C2. For every JSON document that violates the named schema, the
  document-validation error propagates uncaught: the exception that ends the process
  is the validator's own report, nothing else is written to the error stream,
  the exit status is 1 and \<^verbatim>\<open>OK\<close> is not printed.
\<close>

theorem violation_propagates_uncaught:
  assumes "argparse L argv = Parsed ns"
    and "load_spec L fs (spec ns) = Inr (spec_dict, spec_url)"
    and "lib_validate_spec L spec_dict = None"
    and "load_json L fs (json ns) = Inr doc"
    and "lib_from_schema L spec_dict = Inr r"
    and "lookup_schema spec_dict (schema ns) = Inr sch"
    and "lib_validate L doc sch r = Some rep"
  shows "uncaught L fs argv = Some (Raised rep) \<and> exit_status L fs argv = 1 \<and>
         printed L fs argv = [] \<and> error_stream L fs argv = [Traceback (Raised rep)]"
proof -
  have "verdict L fs ns = Inl (Raised rep)"
    using assms
    by (simp add: verdict_def spec_result_def resolver_result_def validate_result_def)
  with main_verdict [OF assms(1), of fs] show ?thesis
    by (simp add: observed)
qed

theorem violation_propagates_uncaught_witness:
  "uncaught example_libs example_fs [''petstore.yaml'', ''true.json'', ''Age''] =
     Some (Raised (Report ''ValidationError'' ''integer'')) \<and>
   exit_status example_libs example_fs [''petstore.yaml'', ''true.json'', ''Age''] = 1 \<and>
   printed example_libs example_fs [''petstore.yaml'', ''true.json'', ''Age''] = [] \<and>
   error_stream example_libs example_fs [''petstore.yaml'', ''true.json'', ''Age''] =
     [Traceback (Raised (Report ''ValidationError'' ''integer''))]"
  by (rule violation_propagates_uncaught
        [where ns = "Namespace ''petstore.yaml'' ''true.json'' ''Age''" and spec_dict = petstore
           and spec_url = "''file:///petstore.yaml''" and doc = "PBool True" and r = petstore
           and sch = age_schema])
     (simp_all add: three_positionals example_specs example_documents example_spec_verdicts
        example_resolver petstore_schemas example_validations)

text \<open>
  C3. For every schema name that is not a key of the \<^verbatim>\<open>components.schemas\<close> mapping
  of the specification, the lookup fails with a \<open>KeyError\<close> for that name and the
  process exits with status 1. Whatever other keys the mapping has, no other schema
  is used in its place: the last call of the run is the failed subscript, and the
  schema validator is not called.
\<close>

theorem absent_schema_name_raises_KeyError:
  assumes "argparse L argv = Parsed ns"
    and "load_spec L fs (spec ns) = Inr (spec_dict, spec_url)"
    and "lib_validate_spec L spec_dict = None"
    and "load_json L fs (json ns) = Inr doc"
    and "lib_from_schema L spec_dict = Inr r"
    and "getitem spec_dict ''components'' = Inr components"
    and "getitem components ''schemas'' = Inr (PDict schemas)"
    and "map_of schemas (schema ns) = None"
  shows "uncaught L fs argv = Some (KeyError (schema ns)) \<and> exit_status L fs argv = 1 \<and>
         printed L fs argv = [] \<and>
         filter is_document_validation (calls L fs argv) =
           [FromSchema spec_dict, GetItem spec_dict ''components'',
            GetItem components ''schemas'', GetItem (PDict schemas) (schema ns)]"
proof -
  obtain contents where "open_result fs (json ns) = Inr contents"
    and "json_load_result L contents = Inr doc"
    using assms(4) by (rule load_json_Inr)
  moreover have "getitem (PDict schemas) (schema ns) = Inl (KeyError (schema ns))"
    using assms(8) by simp
  ultimately have "main L fs argv initial =
    (Inl (KeyError (schema ns)),
     \<lparr>trace = [ParseArgs argv, ReadFromFilename (spec ns), OpenFile (json ns),
        JsonLoad contents, ValidateSpec spec_dict, FromSchema spec_dict,
        GetItem spec_dict ''components'', GetItem components ''schemas'',
        GetItem (PDict schemas) (schema ns)],
      stdout = [], stderr = []\<rparr>)"
    using assms by (intro main_name_fails)
  then show ?thesis
    by (simp add: observed)
qed

theorem absent_schema_name_raises_KeyError_witness:
  "uncaught example_libs example_fs [''petstore.yaml'', ''seven.json'', ''age''] =
     Some (KeyError ''age'') \<and>
   exit_status example_libs example_fs [''petstore.yaml'', ''seven.json'', ''age''] = 1 \<and>
   printed example_libs example_fs [''petstore.yaml'', ''seven.json'', ''age''] = [] \<and>
   filter is_document_validation
     (calls example_libs example_fs [''petstore.yaml'', ''seven.json'', ''age'']) =
     [FromSchema petstore, GetItem petstore ''components'',
      GetItem (PDict [(''schemas'', PDict [(''Age'', age_schema), (''Alias'', alias_schema)])])
        ''schemas'',
      GetItem (PDict [(''Age'', age_schema), (''Alias'', alias_schema)]) ''age'']"
  using absent_schema_name_raises_KeyError
    [where L = example_libs and fs = example_fs
       and argv = "[''petstore.yaml'', ''seven.json'', ''age'']"
       and ns = "Namespace ''petstore.yaml'' ''seven.json'' ''age''" and spec_dict = petstore
       and spec_url = "''file:///petstore.yaml''" and doc = "PInt 7" and r = petstore
       and components = "PDict [(''schemas'', PDict [(''Age'', age_schema), (''Alias'', alias_schema)])]"
       and schemas = "[(''Age'', age_schema), (''Alias'', alias_schema)]"]
  by (simp add: three_positionals example_specs example_documents example_spec_verdicts
        example_resolver petstore_schemas)

text \<open>
  C4. For every spec file that is not a valid OpenAPI 3.0 document (it cannot be
  loaded, or the loaded document is rejected by the specification validator), the
  process exits with status 1, prints nothing, and no step of document validation
  is made in the run: no resolver is built, no schema is looked up and the schema
  validator is not called. This holds whatever the JSON file is.
\<close>

theorem invalid_spec_stops_before_document_validation:
  assumes "argparse L argv = Parsed ns"
    and "spec_invalid L fs (spec ns)"
  shows "exit_status L fs argv = 1 \<and> printed L fs argv = [] \<and>
         filter is_document_validation (calls L fs argv) = []"
proof (cases "load_spec L fs (spec ns)")
  case (Inl e)
  with main_spec_unreadable [OF assms(1) Inl] load_spec_exit_code [OF Inl] show ?thesis
    by (simp add: observed)
next
  case (Inr loaded)
  obtain d u where loaded: "load_spec L fs (spec ns) = Inr (d, u)"
    using Inr by (cases loaded) simp
  then obtain rep where rejected: "lib_validate_spec L d = Some rep"
    using assms(2) by (auto simp: spec_invalid_def)
  show ?thesis
  proof (cases "load_json L fs (json ns)")
    case (Inl e)
    then have code: "exit_code e = 1"
      by (rule load_json_exit_code)
    from Inl show ?thesis
    proof (rule load_json_Inl)
      assume "open_result fs (json ns) = Inl e"
      with main_open_fails [OF assms(1) loaded] code show ?thesis
        by (simp add: observed)
    next
      fix contents
      assume "open_result fs (json ns) = Inr contents" and "json_load_result L contents = Inl e"
      with main_json_fails [OF assms(1) loaded] code show ?thesis
        by (simp add: observed)
    qed
  next
    case (Inr doc)
    then obtain contents where "open_result fs (json ns) = Inr contents"
      and "json_load_result L contents = Inr doc"
      by (rule load_json_Inr)
    with main_spec_rejected [OF assms(1) loaded _ _ rejected] show ?thesis
      by (simp add: observed)
  qed
qed

theorem invalid_spec_stops_before_document_validation_witness:
  "exit_status example_libs example_fs [''versionless.yaml'', ''seven.json'', ''Age''] = 1 \<and>
   printed example_libs example_fs [''versionless.yaml'', ''seven.json'', ''Age''] = [] \<and>
   filter is_document_validation
     (calls example_libs example_fs [''versionless.yaml'', ''seven.json'', ''Age'']) = []"
  by (rule invalid_spec_stops_before_document_validation
        [where ns = "Namespace ''versionless.yaml'' ''seven.json'' ''Age''"])
     (simp_all add: three_positionals spec_invalid_def example_specs example_spec_verdicts)

text \<open>
  C6, as the claim is written: every invocation that misses any of the three
  arguments ends in a usage error with a non-zero exit status, and the command line
  has no optional flags. The parser of line 27 is created with the help option, so
  the invocation with the single argument \<^verbatim>\<open>-h\<close> gives none of the three
  arguments and still exits with status 0, with the help text on standard output
  and nothing on the error stream.
\<close>

theorem help_flag_exits_zero:
  "length (positional_strings example_libs [''-h'']) < length parser_positionals \<and>
   exit_status example_libs no_files [''-h''] = 0 \<and>
   error_stream example_libs no_files [''-h''] = [] \<and>
   printed example_libs no_files [''-h''] = lib_format_help example_libs"
proof -
  have "argparse example_libs [''-h''] = Stopped Help"
    by (simp add: parsing)
  from main_help [OF this, of no_files] show ?thesis
    by (simp add: observed parsing)
qed

subsection \<open>What the argument parser decides\<close>

lemma argparse_missing:
  assumes "help_request L argv = None" and "length (positional_strings L argv) < 3"
  shows "argparse L argv =
    Stopped (Usage (MissingArguments (drop (length (positional_strings L argv)) parser_positionals)))"
  using assms by (simp add: argparse_def Let_def)

lemma argparse_unrecognized:
  assumes "help_request L argv = None"
    and "unknown_options L argv \<noteq> [] \<or> 3 < length (positional_strings L argv)"
  shows "\<exists>u. argparse L argv = Stopped (Usage u)"
  using assms by (auto simp: argparse_def Let_def)

lemma argparse_help:
  assumes "help_request L argv = Some HelpFlag"
  shows "argparse L argv = Stopped Help"
  using assms by (simp add: argparse_def)

lemma argparse_help_request:
  assumes "help_request L argv = Some t"
  obtains s where "argparse L argv = Stopped s"
  using assms by (cases t) (simp_all add: argparse_def)

lemma argparse_three:
  assumes "help_request L argv = None" and "unknown_options L argv = []"
    and "length (positional_strings L argv) = 3" and "''--'' \<notin> set (after_separator argv)"
  shows "argparse L argv =
    Parsed (Namespace (positional_strings L argv ! 0) (positional_strings L argv ! 1)
      (positional_strings L argv ! 2))"
  using assms by (simp add: argparse_def Let_def)

lemma argparse_Parsed:
  assumes "argparse L argv = Parsed ns"
  shows "help_request L argv = None \<and> unknown_options L argv = [] \<and>
         length (positional_strings L argv) = 3"
proof (cases "help_request L argv")
  case None
  with assms show ?thesis
    by (auto simp: argparse_def Let_def split: if_splits)
next
  case (Some t)
  then obtain s where "argparse L argv = Stopped s"
    by (rule argparse_help_request)
  with assms show ?thesis by simp
qed

lemma stopped_run:
  assumes "argparse L argv = Stopped s"
  shows "calls L fs argv = [ParseArgs argv] \<and>
         printed L fs argv = (case s of Help \<Rightarrow> lib_format_help L | _ \<Rightarrow> []) \<and>
         exit_status L fs argv = (case s of Help \<Rightarrow> 0 | Usage _ \<Rightarrow> 2 | Crash _ \<Rightarrow> 1)"
proof (cases s)
  case Help
  with main_help [of L argv fs] assms show ?thesis
    by (simp add: observed)
next
  case (Usage u)
  with main_usage [of L argv u fs] assms show ?thesis
    by (simp add: observed)
next
  case (Crash rep)
  with main_crash [of L argv rep fs] assms show ?thesis
    by (simp add: observed)
qed

text \<open>
  C6, amended. The parser declares exactly three positional arguments, \<open>spec\<close>,
  \<open>json\<close> and \<open>schema\<close>, and no optional flag of its own; the only flag the command
  line accepts is the help flag that the argument parser adds by itself (\<^verbatim>\<open>-h\<close>,
  \<^verbatim>\<open>--help\<close> and its abbreviations), and an invocation whose first help flag
  stands alone prints the help text and exits with status 0. For every invocation
  without a help flag that misses any of the three arguments, argument parsing fails
  with a usage error that names the missing arguments, with exit status 2; an
  invocation without a help flag that has an unknown option or more than three
  arguments fails with a usage error and exit status 2 as well. Arguments are only
  ever accepted when there is no option at all and there are exactly three
  argument strings, which then are \<open>spec\<close>, \<open>json\<close> and \<open>schema\<close> in that order.
  Whenever argument parsing does not return the three values, also for a help flag
  with an attached argument, it is the only call of the run: no file is read.
\<close>

theorem argument_errors_precede_file_io:
  "(help_request L argv = None \<and> length (positional_strings L argv) < 3 \<longrightarrow>
      exit_status L fs argv = 2 \<and>
      error_stream L fs argv =
        [UsageMessage
          (MissingArguments (drop (length (positional_strings L argv)) parser_positionals))] \<and>
      printed L fs argv = [] \<and> calls L fs argv = [ParseArgs argv]) \<and>
   (help_request L argv = None \<and>
    (unknown_options L argv \<noteq> [] \<or> 3 < length (positional_strings L argv)) \<longrightarrow>
      exit_status L fs argv = 2 \<and> printed L fs argv = [] \<and>
      calls L fs argv = [ParseArgs argv]) \<and>
   (help_request L argv = Some HelpFlag \<longrightarrow>
      exit_status L fs argv = 0 \<and> error_stream L fs argv = [] \<and>
      printed L fs argv = lib_format_help L \<and> calls L fs argv = [ParseArgs argv]) \<and>
   (help_request L argv = Some t \<longrightarrow> calls L fs argv = [ParseArgs argv]) \<and>
   (argparse L argv = Parsed ns \<longrightarrow>
      help_request L argv = None \<and> unknown_options L argv = [] \<and>
      length (positional_strings L argv) = 3) \<and>
   (help_request L argv = None \<and> unknown_options L argv = [] \<and>
    length (positional_strings L argv) = 3 \<longrightarrow>
      (\<exists>values. argparse L argv = Parsed values) \<and>
      (''--'' \<notin> set (after_separator argv) \<longrightarrow>
         argparse L argv =
           Parsed (Namespace (positional_strings L argv ! 0) (positional_strings L argv ! 1)
             (positional_strings L argv ! 2)))) \<and>
   (argparse L argv = Stopped s \<longrightarrow>
      calls L fs argv = [ParseArgs argv] \<and>
      exit_status L fs argv = (case s of Help \<Rightarrow> 0 | Usage _ \<Rightarrow> 2 | Crash _ \<Rightarrow> 1))"
proof (intro conjI impI)
  assume a: "help_request L argv = None \<and> length (positional_strings L argv) < 3"
  then have "argparse L argv =
    Stopped (Usage (MissingArguments (drop (length (positional_strings L argv)) parser_positionals)))"
    by (simp add: argparse_missing)
  from main_usage [OF this, of fs]
  show "exit_status L fs argv = 2"
    and "error_stream L fs argv =
      [UsageMessage
        (MissingArguments (drop (length (positional_strings L argv)) parser_positionals))]"
    and "printed L fs argv = []" and "calls L fs argv = [ParseArgs argv]"
    by (simp_all add: observed)
next
  assume a: "help_request L argv = None \<and>
    (unknown_options L argv \<noteq> [] \<or> 3 < length (positional_strings L argv))"
  then obtain u where "argparse L argv = Stopped (Usage u)"
    using argparse_unrecognized [of L argv] by blast
  from main_usage [OF this, of fs]
  show "exit_status L fs argv = 2" and "printed L fs argv = []"
    and "calls L fs argv = [ParseArgs argv]"
    by (simp_all add: observed)
next
  assume "help_request L argv = Some HelpFlag"
  then have "argparse L argv = Stopped Help"
    by (rule argparse_help)
  from main_help [OF this, of fs]
  show "exit_status L fs argv = 0" and "error_stream L fs argv = []"
    and "printed L fs argv = lib_format_help L" and "calls L fs argv = [ParseArgs argv]"
    by (simp_all add: observed)
next
  assume "help_request L argv = Some t"
  then obtain s' where "argparse L argv = Stopped s'"
    by (rule argparse_help_request)
  then show "calls L fs argv = [ParseArgs argv]"
    by (simp add: stopped_run)
next
  assume p: "argparse L argv = Parsed ns"
  from argparse_Parsed [OF p]
  show "help_request L argv = None" and "unknown_options L argv = []"
    and "length (positional_strings L argv) = 3"
    by simp_all
next
  assume a: "help_request L argv = None \<and> unknown_options L argv = [] \<and>
    length (positional_strings L argv) = 3"
  then show "\<exists>values. argparse L argv = Parsed values"
    by (simp add: argparse_def Let_def)
  assume "''--'' \<notin> set (after_separator argv)"
  with a show "argparse L argv =
    Parsed (Namespace (positional_strings L argv ! 0) (positional_strings L argv ! 1)
      (positional_strings L argv ! 2))"
    by (simp add: argparse_three)
next
  assume s: "argparse L argv = Stopped s"
  from stopped_run [OF s, of fs]
  show "calls L fs argv = [ParseArgs argv]"
    and "exit_status L fs argv = (case s of Help \<Rightarrow> 0 | Usage _ \<Rightarrow> 2 | Crash _ \<Rightarrow> 1)"
    by simp_all
qed

theorem argument_errors_precede_file_io_witness:
  "exit_status example_libs example_fs [''petstore.yaml'', ''seven.json''] = 2 \<and>
   error_stream example_libs example_fs [''petstore.yaml'', ''seven.json''] =
     [UsageMessage (MissingArguments [''schema''])] \<and>
   calls example_libs example_fs [''petstore.yaml'', ''seven.json''] =
     [ParseArgs [''petstore.yaml'', ''seven.json'']] \<and>
   exit_status example_libs example_fs [''petstore.yaml'', ''-x''] = 2 \<and>
   error_stream example_libs example_fs [''petstore.yaml'', ''-x''] =
     [UsageMessage (MissingArguments [''json'', ''schema''])] \<and>
   exit_status example_libs example_fs
     [''--verbose'', ''petstore.yaml'', ''seven.json'', ''Age''] = 2 \<and>
   calls example_libs example_fs [''--verbose'', ''petstore.yaml'', ''seven.json'', ''Age''] =
     [ParseArgs [''--verbose'', ''petstore.yaml'', ''seven.json'', ''Age'']] \<and>
   exit_status example_libs example_fs [''petstore.yaml'', ''--hel'', ''-x''] = 0 \<and>
   printed example_libs example_fs [''petstore.yaml'', ''--hel'', ''-x''] =
     lib_format_help example_libs \<and>
   calls example_libs example_fs [''petstore.yaml'', ''--hel'', ''-x''] =
     [ParseArgs [''petstore.yaml'', ''--hel'', ''-x'']] \<and>
   calls example_libs example_fs [''-hx'', ''petstore.yaml'', ''seven.json'', ''Age''] =
     [ParseArgs [''-hx'', ''petstore.yaml'', ''seven.json'', ''Age'']] \<and>
   argparse example_libs [''petstore.yaml'', ''--'', ''seven.json'', ''-Age''] =
     Parsed (Namespace ''petstore.yaml'' ''seven.json'' ''-Age'')"
  using
    argument_errors_precede_file_io
      [where L = example_libs and fs = example_fs and argv = "[''petstore.yaml'', ''seven.json'']"]
    argument_errors_precede_file_io
      [where L = example_libs and fs = example_fs and argv = "[''petstore.yaml'', ''-x'']"]
    argument_errors_precede_file_io
      [where L = example_libs and fs = example_fs
         and argv = "[''--verbose'', ''petstore.yaml'', ''seven.json'', ''Age'']"]
    argument_errors_precede_file_io
      [where L = example_libs and fs = example_fs
         and argv = "[''petstore.yaml'', ''--hel'', ''-x'']"]
    argument_errors_precede_file_io
      [where L = example_libs and fs = example_fs and t = HelpWithArgument
         and argv = "[''-hx'', ''petstore.yaml'', ''seven.json'', ''Age'']"]
    argument_errors_precede_file_io
      [where L = example_libs and fs = example_fs
         and argv = "[''petstore.yaml'', ''--'', ''seven.json'', ''-Age'']"]
  by (simp add: help_request_def tokens_def classify_def positional_strings_def
        unknown_options_def after_separator_def negative_number_def ascii_negative_number_def
        without_final_newline_def abbreviates_help_def is_digit_def is_ascii_def
        parser_positionals_def example_libs_def)

text \<open>
  C7. Passing the OpenAPI 3.0 validation of line 40 does not give the script a
  \<^verbatim>\<open>components.schemas\<close> mapping: for every specification that the validator
  accepts and that has no \<^verbatim>\<open>components\<close> key, or has a \<^verbatim>\<open>components\<close> mapping
  without a \<^verbatim>\<open>schemas\<close> key, the subscript of line 43 raises a \<open>KeyError\<close> for
  the missing key, uncaught, and the process exits with status 1. Between the
  validation of the specification and the failing subscript the script makes no
  check of its own, and the schema validator is not called.
\<close>

theorem missing_components_raises_KeyError:
  assumes "argparse L argv = Parsed ns"
    and "load_spec L fs (spec ns) = Inr (PDict kvs, spec_url)"
    and "lib_validate_spec L (PDict kvs) = None"
    and "load_json L fs (json ns) = Inr doc"
    and "lib_from_schema L (PDict kvs) = Inr r"
  shows "(map_of kvs ''components'' = None \<longrightarrow>
            uncaught L fs argv = Some (KeyError ''components'') \<and>
            exit_status L fs argv = 1 \<and> printed L fs argv = [] \<and>
            dropWhile (\<lambda>ev. \<not> is_spec_validation ev) (calls L fs argv) =
              [ValidateSpec (PDict kvs), FromSchema (PDict kvs),
               GetItem (PDict kvs) ''components'']) \<and>
         (map_of kvs ''components'' = Some (PDict cs) \<and> map_of cs ''schemas'' = None \<longrightarrow>
            uncaught L fs argv = Some (KeyError ''schemas'') \<and>
            exit_status L fs argv = 1 \<and> printed L fs argv = [] \<and>
            dropWhile (\<lambda>ev. \<not> is_spec_validation ev) (calls L fs argv) =
              [ValidateSpec (PDict kvs), FromSchema (PDict kvs),
               GetItem (PDict kvs) ''components'', GetItem (PDict cs) ''schemas''])"
proof -
  obtain contents where js: "open_result fs (json ns) = Inr contents"
    "json_load_result L contents = Inr doc"
    using assms(4) by (rule load_json_Inr)
  note reach = assms(1) assms(2) js assms(3) assms(5)
  show ?thesis
  proof (intro conjI impI)
    assume "map_of kvs ''components'' = None"
    then have "getitem (PDict kvs) ''components'' = Inl (KeyError ''components'')"
      by simp
    from main_components_fails [OF reach this]
    show "uncaught L fs argv = Some (KeyError ''components'')"
      and "exit_status L fs argv = 1" and "printed L fs argv = []"
      and "dropWhile (\<lambda>ev. \<not> is_spec_validation ev) (calls L fs argv) =
        [ValidateSpec (PDict kvs), FromSchema (PDict kvs), GetItem (PDict kvs) ''components'']"
      by (simp_all add: observed)
  next
    assume a: "map_of kvs ''components'' = Some (PDict cs) \<and> map_of cs ''schemas'' = None"
    then have "getitem (PDict kvs) ''components'' = Inr (PDict cs)"
      and "getitem (PDict cs) ''schemas'' = Inl (KeyError ''schemas'')"
      by simp_all
    from main_schemas_fails [OF reach this]
    show "uncaught L fs argv = Some (KeyError ''schemas'')"
      and "exit_status L fs argv = 1" and "printed L fs argv = []"
      and "dropWhile (\<lambda>ev. \<not> is_spec_validation ev) (calls L fs argv) =
        [ValidateSpec (PDict kvs), FromSchema (PDict kvs), GetItem (PDict kvs) ''components'',
         GetItem (PDict cs) ''schemas'']"
      by (simp_all add: observed)
  qed
qed

theorem missing_components_raises_KeyError_witness:
  "uncaught example_libs example_fs [''bare.yaml'', ''seven.json'', ''Age''] =
     Some (KeyError ''components'') \<and>
   exit_status example_libs example_fs [''bare.yaml'', ''seven.json'', ''Age''] = 1 \<and>
   dropWhile (\<lambda>ev. \<not> is_spec_validation ev)
     (calls example_libs example_fs [''bare.yaml'', ''seven.json'', ''Age'']) =
     [ValidateSpec bare_spec, FromSchema bare_spec, GetItem bare_spec ''components''] \<and>
   uncaught example_libs example_fs [''no-schemas.yaml'', ''seven.json'', ''Age''] =
     Some (KeyError ''schemas'') \<and>
   exit_status example_libs example_fs [''no-schemas.yaml'', ''seven.json'', ''Age''] = 1 \<and>
   dropWhile (\<lambda>ev. \<not> is_spec_validation ev)
     (calls example_libs example_fs [''no-schemas.yaml'', ''seven.json'', ''Age'']) =
     [ValidateSpec no_schemas_spec, FromSchema no_schemas_spec,
      GetItem no_schemas_spec ''components'', GetItem (PDict []) ''schemas'']"
  using
    missing_components_raises_KeyError
      [where L = example_libs and fs = example_fs
         and argv = "[''bare.yaml'', ''seven.json'', ''Age'']"
         and ns = "Namespace ''bare.yaml'' ''seven.json'' ''Age''" and kvs = required_fields
         and spec_url = "''file:///bare.yaml''" and doc = "PInt 7" and r = bare_spec]
    missing_components_raises_KeyError
      [where L = example_libs and fs = example_fs
         and argv = "[''no-schemas.yaml'', ''seven.json'', ''Age'']"
         and ns = "Namespace ''no-schemas.yaml'' ''seven.json'' ''Age''"
         and kvs = no_schemas_fields and cs = "[]"
         and spec_url = "''file:///no-schemas.yaml''" and doc = "PInt 7" and r = no_schemas_spec]
    example_specs example_spec_verdicts
  by (simp add: three_positionals example_documents example_resolver
        bare_spec_def no_schemas_spec_def)
     (simp add: required_fields_def no_schemas_fields_def)

text \<open>
  C8, as the claim is written: in every invocation whose JSON path is unreadable or
  holds invalid JSON the process fails with that load or parse error. The
  specification file is read on line 37, before the JSON file is opened on line 38:
  when the specification path does not lead to a file, the process ends with the
  error of the specification path, although the JSON file is not valid JSON either.
\<close>

theorem unreadable_spec_fails_first:
  "load_json example_libs example_fs ''torn.json'' =
     Inl (Raised (Report ''JSONDecodeError'' ''{'')) \<and>
   uncaught example_libs example_fs [''nope.yaml'', ''torn.json'', ''Age''] =
     Some (OSError ''nope.yaml'')"
proof -
  have "argparse example_libs [''nope.yaml'', ''torn.json'', ''Age''] =
      Parsed (Namespace ''nope.yaml'' ''torn.json'' ''Age'')"
    by (simp add: parsing)
  moreover have "load_spec example_libs example_fs ''nope.yaml'' = Inl (OSError ''nope.yaml'')"
    by (simp add: load_spec_def example_fs_def)
  ultimately have "main example_libs example_fs [''nope.yaml'', ''torn.json'', ''Age''] initial =
    (Inl (OSError ''nope.yaml''),
     \<lparr>trace = [ParseArgs [''nope.yaml'', ''torn.json'', ''Age''], ReadFromFilename ''nope.yaml''],
      stdout = [], stderr = []\<rparr>)"
    using main_spec_unreadable
      [of example_libs "[''nope.yaml'', ''torn.json'', ''Age'']"
        "Namespace ''nope.yaml'' ''torn.json'' ''Age''" example_fs "OSError ''nope.yaml''"]
    by simp
  then show ?thesis
    by (simp add: observed example_documents)
qed

text \<open>
  C8, amended. The target JSON file is opened and parsed (line 38) after the
  specification file has been read (line 37) and before the specification is
  validated (line 40). For every invocation whose arguments parse and whose JSON
  path cannot be opened or holds invalid JSON, the process exits with status 1,
  prints nothing, and neither the specification validator nor any step of document
  validation is reached. When the specification file has been loaded, the process
  fails with that JSON load or parse error, whether or not the loaded specification
  is structurally valid; when the specification file itself cannot be loaded, the
  process fails with the error of the specification file.
\<close>

theorem json_load_failure_precedes_spec_validation:
  assumes "argparse L argv = Parsed ns"
    and "load_json L fs (json ns) = Inl e"
  shows "uncaught L fs argv =
           Some (case load_spec L fs (spec ns) of Inl spec_error \<Rightarrow> spec_error | Inr _ \<Rightarrow> e) \<and>
         exit_status L fs argv = 1 \<and> printed L fs argv = [] \<and>
         filter is_spec_validation (calls L fs argv) = [] \<and>
         filter is_document_validation (calls L fs argv) = []"
proof (cases "load_spec L fs (spec ns)")
  case (Inl spec_error)
  with main_spec_unreadable [OF assms(1) Inl] load_spec_exit_code [OF Inl] show ?thesis
    by (simp add: observed)
next
  case (Inr loaded)
  obtain d u where loaded: "load_spec L fs (spec ns) = Inr (d, u)"
    using Inr by (cases loaded) simp
  have code: "exit_code e = 1"
    using assms(2) by (rule load_json_exit_code)
  from assms(2) show ?thesis
  proof (rule load_json_Inl)
    assume "open_result fs (json ns) = Inl e"
    with main_open_fails [OF assms(1) loaded] code loaded show ?thesis
      by (simp add: observed)
  next
    fix contents
    assume "open_result fs (json ns) = Inr contents" and "json_load_result L contents = Inl e"
    with main_json_fails [OF assms(1) loaded] code loaded show ?thesis
      by (simp add: observed)
  qed
qed

theorem json_load_failure_precedes_spec_validation_witness:
  "lib_validate_spec example_libs versionless_spec \<noteq> None \<and>
   uncaught example_libs example_fs [''versionless.yaml'', ''torn.json'', ''Age''] =
     Some (Raised (Report ''JSONDecodeError'' ''{'')) \<and>
   exit_status example_libs example_fs [''versionless.yaml'', ''torn.json'', ''Age''] = 1 \<and>
   printed example_libs example_fs [''versionless.yaml'', ''torn.json'', ''Age''] = [] \<and>
   filter is_spec_validation
     (calls example_libs example_fs [''versionless.yaml'', ''torn.json'', ''Age'']) = [] \<and>
   filter is_document_validation
     (calls example_libs example_fs [''versionless.yaml'', ''torn.json'', ''Age'']) = []"
  using json_load_failure_precedes_spec_validation
    [where L = example_libs and fs = example_fs
       and argv = "[''versionless.yaml'', ''torn.json'', ''Age'']"
       and ns = "Namespace ''versionless.yaml'' ''torn.json'' ''Age''"
       and e = "Raised (Report ''JSONDecodeError'' ''{'')"]
  by (simp add: three_positionals example_specs example_documents example_spec_verdicts)

end
